theory Spec2Isabelle
  imports Complex_Main "HOL-Library.AList"
begin

section \<open>Collage composer (create_collage_sync, main.py lines 115-144)\<close>

text \<open>
  A bitmap is known to the composer by its size only; \<open>img_src\<close> names the picture so
  that two bitmaps of the same size can be told apart.
\<close>

record image =
  img_width :: nat
  img_height :: nat
  img_src :: string

text \<open>
  The collage: the canvas created by \<open>Image.new\<close> and the list of \<open>paste\<close> calls,
  each with the pasted bitmap and the pixel offset of its upper left corner. The JPEG
  encoding of the canvas is taken to succeed, so the collage stands for the buffer
  that is returned.
\<close>

record collage =
  canvas_w :: nat
  canvas_h :: nat
  pastes :: "(image \<times> nat \<times> nat) list"

datatype py_error =
    ZeroDivisionError | IndexError | KeyError | ValueError | TypeError | AttributeError
  | UnboundLocalError

text \<open>The loop \<open>for i, img in enumerate(images)\<close> with its three assignments.\<close>

fun paste_loop :: "nat \<Rightarrow> nat \<Rightarrow> nat \<Rightarrow> nat \<Rightarrow> image list \<Rightarrow> (image \<times> nat \<times> nat) list" where
  "paste_loop cols w h i [] = []"
| "paste_loop cols w h i (img # imgs) =
     (let row = i div cols; col = i mod cols
      in (img, col * w, row * h) # paste_loop cols w h (Suc i) imgs)"

text \<open>
  The body of the \<open>try\<close> block. With no image \<open>cols\<close> is 0 and the floor division of
  line 121 raises; \<open>images[0]\<close> of line 124 would raise on the empty list as well.
\<close>

definition collage_body :: "image list \<Rightarrow> py_error + collage" where
  "collage_body images =
     (let num_images = length images;
          cols = min 3 num_images
      in if cols = 0 then Inl ZeroDivisionError
         else let rows = (num_images + cols - 1) div cols
              in (case images of
                    [] \<Rightarrow> Inl IndexError
                  | first # _ \<Rightarrow>
                      let w = img_width first; h = img_height first
                      in Inr \<lparr>canvas_w = cols * w, canvas_h = rows * h,
                              pastes = paste_loop cols w h 0 images\<rparr>))"

text \<open>\<open>except Exception\<close>: the error is logged and \<open>None\<close> is returned.\<close>

definition create_collage_sync :: "image list \<Rightarrow> collage option" where
  "create_collage_sync images =
     (case collage_body images of Inl e \<Rightarrow> None | Inr c \<Rightarrow> Some c)"


section \<open>Data of the shop\<close>

text \<open>The rows of the two tables of the store (classes Product and Cart).\<close>

record product =
  p_id :: int
  p_category :: string
  p_name :: string
  p_price :: int
  p_photo_id :: string
  p_description :: string

record cart =
  c_id :: int
  c_user_id :: int
  c_product_id :: int

text \<open>
  An entry of \<open>user_data\<close>: the category, the dictionary from product id to product
  built when the category was rendered (an association list in insertion order, as a
  Python dictionary is), and the ids of the messages on screen.
\<close>

record session =
  category :: string
  products :: "(int \<times> product) list"
  last_msg_ids :: "int list"

section \<open>The messaging transport\<close>

datatype button = Button string string

datatype markup =
    NoMarkup
  | MainKeyboard
  | ReplyKeyboardRemove
  | ContactKeyboard
  | CategoryKeyboard
  | InlineKeyboard "button list list"

datatype photo = Upload collage | FileId string

datatype chat = ChatId int | ChatName string

text \<open>
  The calls of the bot API that the handlers make. \<open>message.answer\<close> and
  \<open>bot.send_message\<close> are both \<open>SendMessage\<close> to a chat; \<open>callback.answer\<close> is
  \<open>AnswerCallback\<close> with its optional text.
\<close>

datatype call =
    DeleteMessage chat int
  | SendMessage chat string markup
  | SendPhoto chat photo string markup
  | AnswerCallback "string option"
  | GetFile string

datatype http_result = NetError | Response nat "nat list"

text \<open>
  What the program does not decide is a parameter of the model:
  \<^item> \<open>tg_fails n\<close>: whether the n-th call of the bot API (counted from 0 over the
    whole run) raises;
  \<^item> \<open>msg_id n\<close>: the id of the message that the n-th call sends;
  \<^item> \<open>file_path\<close>: the path that \<open>get_file\<close> resolves a photo id to;
  \<^item> \<open>respond n url\<close>: the outcome of the n-th HTTP retrieval, made for \<open>url\<close>;
  \<^item> \<open>decode\<close> and \<open>thumbnail\<close>: \<open>Image.open\<close> and \<open>Image.thumbnail((400, 400))\<close> of the
    imaging library, \<open>None\<close> where they raise;
  \<^item> \<open>TOKEN\<close> and \<open>ADMIN_ID\<close>: the two environment variables;
  \<^item> \<open>new_id\<close>: the id that the store gives to a product added to the given table;
  \<^item> \<open>autoflush\<close>: whether the session of the store writes pending deletions
    before it runs a query (the session factory is configured in the module
    \<open>database\<close>).
\<close>

record env =
  tg_fails :: "nat \<Rightarrow> bool"
  msg_id :: "nat \<Rightarrow> int"
  file_path :: "string \<Rightarrow> string"
  respond :: "nat \<Rightarrow> string \<Rightarrow> http_result"
  decode :: "nat list \<Rightarrow> image option"
  thumbnail :: "image \<Rightarrow> image option"
  TOKEN :: string
  ADMIN_ID :: string
  new_id :: "product list \<Rightarrow> int"
  autoflush :: bool

text \<open>
  The state of the process and of its collaborators: the two module-level dictionaries,
  the two tables, the bot API calls made so far, each with whether it succeeded, and the
  URLs retrieved from the network so far.
\<close>

record world =
  user_data :: "int \<rightharpoonup> session"
  image_cache :: "string \<rightharpoonup> image"
  db_products :: "product list"
  db_carts :: "cart list"
  trace :: "(call \<times> bool) list"
  net_log :: "string list"

text \<open>One call of the bot API: it is recorded, and the result says whether it succeeded.\<close>

definition tg_call :: "env \<Rightarrow> call \<Rightarrow> world \<Rightarrow> bool \<times> world" where
  "tg_call e c w =
     (let ok = \<not> tg_fails e (length (trace w))
      in (ok, w\<lparr>trace := trace w @ [(c, ok)]\<rparr>))"

text \<open>A call that sends a message returns the id of the new message.\<close>

definition tg_send :: "env \<Rightarrow> call \<Rightarrow> world \<Rightarrow> int option \<times> world" where
  "tg_send e c w =
     (let n = length (trace w); (ok, w') = tg_call e c w
      in (if ok then Some (msg_id e n) else None, w'))"

section \<open>Image fetch and cache (download_image, main.py lines 89-113)\<close>

text \<open>
  \<open>download_from e seen url w\<close> is the body of \<open>download_image\<close> where \<open>seen\<close> is the
  cache as the coroutine finds it at line 91. On a miss the URL is retrieved; only a
  response with status 200 whose body decodes and resizes is written to the cache and
  returned. Every other outcome falls through to \<open>return None\<close>.
\<close>

definition download_from ::
  "env \<Rightarrow> (string \<rightharpoonup> image) \<Rightarrow> string \<Rightarrow> world \<Rightarrow> image option \<times> world" where
  "download_from e seen url w =
     (case seen url of
        Some img \<Rightarrow> (Some img, w)
      | None \<Rightarrow>
          (let n = length (net_log w);
               w1 = w\<lparr>net_log := net_log w @ [url]\<rparr>
           in case respond e n url of
                NetError \<Rightarrow> (None, w1)
              | Response status body \<Rightarrow>
                  if status = 200 then
                    (case decode e body of
                       None \<Rightarrow> (None, w1)
                     | Some opened \<Rightarrow>
                         (case thumbnail e opened of
                            None \<Rightarrow> (None, w1)
                          | Some img \<Rightarrow>
                              (Some img, w1\<lparr>image_cache := (image_cache w1)(url \<mapsto> img)\<rparr>)))
                  else (None, w1)))"

definition download_image :: "env \<Rightarrow> string \<Rightarrow> world \<Rightarrow> image option \<times> world" where
  "download_image e url w = download_from e (image_cache w) url w"

section \<open>Strings of the Python runtime\<close>

text \<open>\<open>str\<close> of an integer: decimal digits, with a minus sign for a negative number.\<close>

definition digit_char :: "nat \<Rightarrow> char" where
  "digit_char d = ''0123456789'' ! d"

fun str_nat :: "nat \<Rightarrow> string" where
  "str_nat n = (if n < 10 then [digit_char n] else str_nat (n div 10) @ [digit_char (n mod 10)])"

declare str_nat.simps [simp del]

definition str_int :: "int \<Rightarrow> string" where
  "str_int i = (if i < 0 then CHR ''-'' # str_nat (nat (- i)) else str_nat (nat i))"

text \<open>
  The characters of a string are bytes here, so the tests below are those of Python on
  the ASCII range: the white space of \<open>str.split\<close> and \<open>str.strip\<close> (codes 9 to 13 and
  28 to 32) and the decimal digits.
\<close>

definition py_isspace :: "char \<Rightarrow> bool" where
  "py_isspace c = (let n = (of_char c :: nat) in (9 \<le> n \<and> n \<le> 13) \<or> (28 \<le> n \<and> n \<le> 32))"

definition py_isdigit :: "char \<Rightarrow> bool" where
  "py_isdigit c = (let n = (of_char c :: nat) in 48 \<le> n \<and> n \<le> 57)"

definition digit_val :: "char \<Rightarrow> int" where
  "digit_val c = int (of_char c) - 48"



text \<open>\<open>s.split(sep)\<close> for a separator of one character.\<close>

fun split_on :: "char \<Rightarrow> string \<Rightarrow> string list" where
  "split_on sep [] = [[]]"
| "split_on sep (c # cs) =
     (if c = sep then [] # split_on sep cs
      else (case split_on sep cs of
              [] \<Rightarrow> [[c]]
            | t # ts \<Rightarrow> (c # t) # ts))"

definition py_strip :: "string \<Rightarrow> string" where
  "py_strip s = dropWhile py_isspace (rev (dropWhile py_isspace (rev s)))"

text \<open>
  \<open>int(s)\<close> for a string: white space around the literal is dropped, a sign may come
  first, then decimal digits, where single underscores may stand between digits.
  \<open>None\<close> is the ValueError. \<open>py_digits seen acc cs\<close> reads the digits; \<open>seen\<close> says
  that the character before was a digit.
\<close>

fun py_digits :: "bool \<Rightarrow> int \<Rightarrow> string \<Rightarrow> int option" where
  "py_digits seen acc [] = (if seen then Some acc else None)"
| "py_digits seen acc (c # cs) =
     (if py_isdigit c then py_digits True (acc * 10 + digit_val c) cs
      else if c = CHR ''_'' \<and> seen then py_digits False acc cs
      else None)"

definition py_int :: "string \<Rightarrow> int option" where
  "py_int s =
     (case py_strip s of
        [] \<Rightarrow> None
      | c # cs \<Rightarrow>
          if c = CHR ''-'' then map_option uminus (py_digits False 0 cs)
          else if c = CHR ''+'' then py_digits False 0 cs
          else py_digits False 0 (c # cs))"

text \<open>\<open>xs[i]\<close>: a negative index counts from the end; out of range is an IndexError.\<close>

definition py_get :: "'a list \<Rightarrow> int \<Rightarrow> py_error + 'a" where
  "py_get xs i =
     (if 0 \<le> i \<and> i < int (length xs) then Inr (xs ! nat i)
      else if i < 0 \<and> - int (length xs) \<le> i then Inr (xs ! nat (int (length xs) + i))
      else Inl IndexError)"

section \<open>Events and texts\<close>

text \<open>The fields of an incoming message and of a button press that the handlers read.\<close>

record message =
  m_user_id :: int
  m_username :: "string option"
  m_chat_id :: int
  m_text :: "string option"
  m_contact :: "string option"


text \<open>What a handler can raise: a failed call of the bot API, or a Python error.\<close>

datatype exn = TelegramError | PyError py_error

text \<open>
  The texts of the bot are Russian and carry emoji; each literal of the source is a
  constant here, written in ASCII transliteration. No property below depends on the
  wording.
\<close>

definition nl :: string where
  "nl = [CHR 0x0A]"

definition label_main :: string where
  "label_main = ''[racing car] Mejn modeli''"

definition label_special :: string where
  "label_special = ''[car] Spec. serii''"

definition label_premium :: string where
  "label_premium = ''[flag] Premium modeli''"

definition label_zamak :: string where
  "label_zamak = ''[crystal ball] Zamak modeli''"

definition label_team_transport :: string where
  "label_team_transport = ''[truck] Tim transport''"

definition text_no_products :: string where
  "text_no_products = ''V etoj kategorii poka net tovarov [crying]''"

definition text_collage_failed :: string where
  "text_collage_failed = ''Oshibka pri sozdanii kollazha, pokazyvaem tolko spisok''"

definition text_error :: string where
  "text_error = ''Proizoshla oshibka [crying] Poprobujte pozzhe.''"

definition text_list_error :: string where
  "text_list_error = ''Oshibka otobrazheniya spiska''"

definition text_back_to_menu :: string where
  "text_back_to_menu = ''[left arrow] Nazad v menyu''"

text \<open>The dictionary \<open>category_map\<close> of \<open>show_category\<close>, from button label to category.\<close>

definition category_map :: "(string \<times> string) list" where
  "category_map =
     [(label_main, ''main''), (label_special, ''special''), (label_premium, ''premium''),
      (label_zamak, ''zamak''), (label_team_transport, ''team_transport'')]"

section \<open>Category render pipeline\<close>

text \<open>\<open>delete_previous_messages\<close> (lines 82-87): a failed deletion is logged and the loop goes on.\<close>

fun delete_previous_messages :: "env \<Rightarrow> chat \<Rightarrow> int list \<Rightarrow> world \<Rightarrow> world" where
  "delete_previous_messages e ch [] w = w"
| "delete_previous_messages e ch (m # ms) w =
     delete_previous_messages e ch ms (snd (tg_call e (DeleteMessage ch m) w))"

text \<open>
  \<open>asyncio.gather\<close> over the \<open>download_image\<close> tasks (lines 150-151). Every task runs up
  to its first suspension before any retrieval completes, so each of them looks its URL
  up in the cache as it was when the tasks were created; the retrievals are recorded in
  task order.
\<close>

fun download_all ::
  "env \<Rightarrow> (string \<rightharpoonup> image) \<Rightarrow> string list \<Rightarrow> world \<Rightarrow> image option list \<times> world" where
  "download_all e seen [] w = ([], w)"
| "download_all e seen (url # urls) w =
     (let (r, w1) = download_from e seen url w;
          (rs, w2) = download_all e seen urls w1
      in (r # rs, w2))"

text \<open>The loop of lines 159-160 (and 287-288) that appends one line per product.\<close>

definition text_rub :: string where
  "text_rub = '' rub.''"

fun caption_loop :: "nat \<Rightarrow> product list \<Rightarrow> string \<Rightarrow> string" where
  "caption_loop idx [] products_text = products_text"
| "caption_loop idx (p # ps) products_text =
     caption_loop (Suc idx) ps
       (products_text @ str_nat idx @ ''. '' @ p_name p @ '' - '' @ str_int (p_price p)
          @ text_rub @ nl)"

definition caption_header :: "string \<Rightarrow> string" where
  "caption_header category_name =
     ''[clipboard] '' @ category_name @ '' - spisok modelej:'' @ nl @ nl"

text \<open>
  \<open>create_combined_message\<close> (lines 146-172). The results are the encoded collage, the
  caption and the number of products; \<open>None\<close> when no image was fetched or the composer
  failed.
\<close>

definition create_combined_message ::
  "env \<Rightarrow> string list \<Rightarrow> product list \<Rightarrow> string \<Rightarrow> world
     \<Rightarrow> (collage \<times> string \<times> nat) option \<times> world" where
  "create_combined_message e photo_urls prods category_name w =
     (let (fetched, w1) = download_all e (image_cache w) photo_urls w;
          images = concat (map (\<lambda>r. case r of None \<Rightarrow> [] | Some img \<Rightarrow> [img]) fetched)
      in if images = [] then (None, w1)
         else let products_text = caption_loop 1 prods (caption_header category_name)
              in (case create_collage_sync images of
                    None \<Rightarrow> (None, w1)
                  | Some collage_buffer \<Rightarrow>
                      (Some (collage_buffer, products_text, length prods), w1)))"

text \<open>
  The loop of lines 231-240 over \<open>range(1, num_products + 1)\<close>: a button per index,
  three buttons to a row. \<open>buttons\<close> are the finished rows, \<open>row\<close> is the open one.
\<close>

fun button_loop ::
  "product list \<Rightarrow> nat list \<Rightarrow> button list list \<Rightarrow> button list
     \<Rightarrow> py_error + (button list list \<times> button list)" where
  "button_loop prods [] buttons row = Inr (buttons, row)"
| "button_loop prods (idx # rest) buttons row =
     (case py_get prods (int idx - 1) of
        Inl err \<Rightarrow> Inl err
      | Inr p \<Rightarrow>
          (let row' = row @ [Button (str_nat idx) (''product_'' @ str_int (p_id p))]
           in if idx mod 3 = 0 then button_loop prods rest (buttons @ [row']) []
              else button_loop prods rest buttons row'))"

text \<open>The same loop as \<open>show_products_list\<close> writes it, over \<open>enumerate(products, 1)\<close>.\<close>

fun button_loop_enum ::
  "nat \<Rightarrow> product list \<Rightarrow> button list list \<Rightarrow> button list
     \<Rightarrow> button list list \<times> button list" where
  "button_loop_enum idx [] buttons row = (buttons, row)"
| "button_loop_enum idx (p # ps) buttons row =
     (let row' = row @ [Button (str_nat idx) (''product_'' @ str_int (p_id p))]
      in if idx mod 3 = 0 then button_loop_enum (Suc idx) ps (buttons @ [row']) []
         else button_loop_enum (Suc idx) ps buttons row')"

text \<open>Lines 242-248: the open row is added if it has a button, then the row "back to menu".\<close>

definition finish_buttons :: "button list list \<times> button list \<Rightarrow> button list list" where
  "finish_buttons br =
     (case br of (buttons, row) \<Rightarrow>
        (if row \<noteq> [] then buttons @ [row] else buttons)
          @ [[Button text_back_to_menu ''back_to_menu'']])"

text \<open>The dictionary comprehension \<open>{p.id: p for p in products}\<close>.\<close>

definition products_dict :: "product list \<Rightarrow> (int \<times> product) list" where
  "products_dict prods = foldl (\<lambda>d p. AList.update (p_id p) p d) [] prods"

text \<open>Sending a message inside a handler: the result says whether the call raised.\<close>

definition answer :: "env \<Rightarrow> chat \<Rightarrow> string \<Rightarrow> markup \<Rightarrow> world \<Rightarrow> exn option \<times> world" where
  "answer e ch txt mk w =
     (case tg_send e (SendMessage ch txt mk) w of
        (None, w') \<Rightarrow> (Some TelegramError, w')
      | (Some mid, w') \<Rightarrow> (None, w'))"

text \<open>
  \<open>asyncio.gather\<close> over \<open>bot.get_file\<close> (lines 216-217): all calls are made; the
  result is the list of file paths, or an error when one of the calls failed.
\<close>

fun get_files :: "env \<Rightarrow> string list \<Rightarrow> world \<Rightarrow> bool \<times> world" where
  "get_files e [] w = (True, w)"
| "get_files e (ph # phs) w =
     (let (ok, w1) = tg_call e (GetFile ph) w;
          (oks, w2) = get_files e phs w1
      in (ok \<and> oks, w2))"

definition photo_url :: "env \<Rightarrow> string \<Rightarrow> string" where
  "photo_url e ph = ''https://api.telegram.org/file/bot'' @ TOKEN e @ ''/'' @ file_path e ph"

text \<open>The reverse dictionary of line 277, with the category itself as the default.\<close>

definition category_name_of :: "string \<Rightarrow> string" where
  "category_name_of cat =
     (case map_of (map (\<lambda>(l, c). (c, l)) category_map) cat of
        None \<Rightarrow> cat
      | Some l \<Rightarrow> l)"

text \<open>
  \<open>show_products_list\<close> (lines 270-326), the text-only listing. The result is the
  exception that leaves the function, if any.
\<close>

definition show_products_list :: "env \<Rightarrow> message \<Rightarrow> int \<Rightarrow> world \<Rightarrow> exn option \<times> world" where
  "show_products_list e msg user_id w =
     (let ch = ChatId (m_chat_id msg) in
      case user_data w user_id of
        None \<Rightarrow> answer e ch text_list_error NoMarkup w
      | Some s \<Rightarrow>
          (let prods = map snd (products s);
               products_text = caption_loop 1 prods (caption_header (category_name_of (category s)));
               buttons = finish_buttons (button_loop_enum 1 prods [] []);
               w1 = (if last_msg_ids s \<noteq> [] then delete_previous_messages e ch (last_msg_ids s) w
                     else w)
           in case tg_send e (SendMessage ch products_text (InlineKeyboard buttons)) w1 of
                (None, w2) \<Rightarrow> answer e ch text_error NoMarkup w2
              | (Some mid, w2) \<Rightarrow>
                  (None, w2\<lparr>user_data := (user_data w2)(user_id \<mapsto> s\<lparr>last_msg_ids := [mid]\<rparr>)\<rparr>)))"

text \<open>
  Lines 228-262 of \<open>show_category\<close>: the buttons are built, the messages recorded as
  active for the user are deleted, the collage is sent and its message id is recorded.
\<close>

definition emit_category ::
  "env \<Rightarrow> message \<Rightarrow> product list \<Rightarrow> collage \<times> string \<times> nat \<Rightarrow> world
     \<Rightarrow> exn option \<times> world" where
  "emit_category e msg prods combined w =
     (case combined of (collage_buffer, products_text, num_products) \<Rightarrow>
        (let user_id = m_user_id msg;
             ch = ChatId (m_chat_id msg)
         in case button_loop prods [1..<num_products + 1] [] [] of
              Inl err \<Rightarrow> (Some (PyError err), w)
            | Inr br \<Rightarrow>
                (let buttons = finish_buttons br;
                     w1 = (case user_data w user_id of
                             None \<Rightarrow> w
                           | Some s \<Rightarrow>
                               if last_msg_ids s \<noteq> []
                               then delete_previous_messages e ch (last_msg_ids s) w
                               else w)
                 in case tg_send e (SendPhoto ch (Upload collage_buffer) products_text
                                      (InlineKeyboard buttons)) w1 of
                      (None, w2) \<Rightarrow> (Some TelegramError, w2)
                    | (Some mid, w2) \<Rightarrow>
                        (case user_data w2 user_id of
                           None \<Rightarrow> (Some (PyError KeyError), w2)
                         | Some s \<Rightarrow>
                             (None, w2\<lparr>user_data := (user_data w2)(user_id \<mapsto>
                                         s\<lparr>last_msg_ids := [mid]\<rparr>)\<rparr>)))))"

text \<open>
  The \<open>try\<close> block of \<open>show_category\<close> (lines 202-262) for a message whose text is the
  label \<open>category_name\<close> of \<open>category\<close>. The result is the exception raised in the
  block, if any.
\<close>

definition show_category_try ::
  "env \<Rightarrow> message \<Rightarrow> string \<Rightarrow> string \<Rightarrow> world \<Rightarrow> exn option \<times> world" where
  "show_category_try e msg cat category_name w =
     (let user_id = m_user_id msg;
          ch = ChatId (m_chat_id msg);
          prods = filter (\<lambda>p. p_category p = cat) (db_products w)
      in if prods = [] then answer e ch text_no_products NoMarkup w
         else
          (let w1 = w\<lparr>user_data := (user_data w)(user_id \<mapsto>
                        \<lparr>category = cat, products = products_dict prods, last_msg_ids = []\<rparr>)\<rparr>;
               (got, w2) = get_files e (map p_photo_id prods) w1
           in if \<not> got then (Some TelegramError, w2)
              else
               (let photo_urls = map (\<lambda>p. photo_url e (p_photo_id p)) prods;
                    (combined, w3) = create_combined_message e photo_urls prods category_name w2
                in case combined of
                     None \<Rightarrow>
                       (case answer e ch text_collage_failed NoMarkup w3 of
                          (Some x, w4) \<Rightarrow> (Some x, w4)
                        | (None, w4) \<Rightarrow> show_products_list e msg user_id w4)
                   | Some rendered \<Rightarrow> emit_category e msg prods rendered w3)))"

text \<open>
  \<open>show_category\<close> (lines 183-268). The filter of the handler admits the five labels
  only; for another message the handler does not run. An exception in the \<open>try\<close> block
  is logged and answered with the general error text, and that answer may raise in turn.
\<close>

definition show_category :: "env \<Rightarrow> message \<Rightarrow> world \<Rightarrow> exn option \<times> world" where
  "show_category e msg w =
     (case m_text msg of
        None \<Rightarrow> (None, w)
      | Some txt \<Rightarrow>
          (case map_of category_map txt of
             None \<Rightarrow> (None, w)
           | Some cat \<Rightarrow>
               (case show_category_try e msg cat txt w of
                  (None, w1) \<Rightarrow> (None, w1)
                | (Some x, w1) \<Rightarrow> answer e (ChatId (m_chat_id msg)) text_error NoMarkup w1)))"

text \<open>The line of the caption for the product shown at \<open>idx\<close>, and its selection button.\<close>

definition caption_line :: "nat \<Rightarrow> product \<Rightarrow> string" where
  "caption_line idx p =
     str_nat idx @ ''. '' @ p_name p @ '' - '' @ str_int (p_price p) @ text_rub @ nl"

definition select_button :: "nat \<Rightarrow> product \<Rightarrow> button" where
  "select_button idx p = Button (str_nat idx) (''product_'' @ str_int (p_id p))"

section \<open>Item selection (show_product, main.py lines 328-360)\<close>







text \<open>\<open>int(callback.data.split('_')[1])\<close>, with the IndexError and the ValueError.\<close>

definition callback_id :: "string \<Rightarrow> py_error + int" where
  "callback_id data =
     (case py_get (split_on CHR ''_'' data) 1 of
        Inl err \<Rightarrow> Inl err
      | Inr tok \<Rightarrow> (case py_int tok of None \<Rightarrow> Inl ValueError | Some i \<Rightarrow> Inr i))"




section \<open>Conversation state\<close>

datatype fsm_state =
    Waiting_phone | Waiting_payment_info
  | Waiting_photo | Waiting_name | Waiting_price | Waiting_description | Waiting_category
  | Waiting_id

datatype val = VText "string option" | VInt int

text \<open>The FSM context of one user: the state (\<open>None\<close> is idle) and the collected data.\<close>

record fsm =
  fsm_state :: "fsm_state option"
  fsm_data :: "string \<rightharpoonup> val"

definition state_clear :: "fsm \<Rightarrow> fsm" where
  "state_clear f = \<lparr>fsm_state = None, fsm_data = Map.empty\<rparr>"



section \<open>Adding a product (lines 703-711 and 731-771)\<close>











section \<open>Bulk delete (process_delete_id, main.py lines 795-833)\<close>





definition text_bullet :: string where
  "text_bullet = ''* ''"







section \<open>Checkout completion (process_payment_info, main.py lines 602-664)\<close>

definition text_cart_empty :: string where
  "text_cart_empty = ''Vasha korzina pusta!''"

definition text_order_error :: string where
  "text_order_error = ''Proizoshla oshibka pri oformlenii zakaza [crying]''"

definition text_not_given :: string where
  "text_not_given = ''ne ukazan''"

text \<open>How an f-string prints an optional text and a stored value.\<close>

definition fmt_text :: "string option \<Rightarrow> string" where
  "fmt_text t = (case t of None \<Rightarrow> ''None'' | Some s \<Rightarrow> s)"

definition fmt_val :: "val \<Rightarrow> string" where
  "fmt_val v = (case v of VText t \<Rightarrow> fmt_text t | VInt i \<Rightarrow> str_int i)"

definition order_head :: "string \<Rightarrow> string \<Rightarrow> string" where
  "order_head contact payment_info =
     ''[check] Vash zakaz oformlen!'' @ nl @ nl
       @ ''[phone] Vashi kontakty: '' @ contact @ nl
       @ ''[card] Sposob oplaty: '' @ payment_info @ nl @ nl
       @ ''[cart] Sostav zakaza:'' @ nl"

definition admin_head :: "string \<Rightarrow> string \<Rightarrow> string \<Rightarrow> string" where
  "admin_head user_tag contact payment_info =
     ''[new] NOVYJ ZAKAZ!'' @ nl @ nl
       @ ''[person] Polzovatel: '' @ user_tag @ nl
       @ ''[phone] Kontakty: '' @ contact @ nl
       @ ''[card] Sposob oplaty: '' @ payment_info @ nl @ nl
       @ ''[package] Zakazannye tovary:'' @ nl"

definition order_line :: "product \<Rightarrow> string" where
  "order_line p = text_bullet @ p_name p @ '' - '' @ str_int (p_price p) @ text_rub @ nl"

definition order_tail :: "int \<Rightarrow> string" where
  "order_tail total' =
     nl @ ''[money] Itogo k oplate: <b>'' @ str_int total' @ text_rub @ ''</b>'' @ nl @ nl
       @ ''Spasibo za zakaz! My svyazhemsya s vami v blizhajshee vremya.''"

definition admin_tail :: "int \<Rightarrow> string" where
  "admin_tail total' =
     nl @ ''[money bag] Obshchaya summa: <b>'' @ str_int total' @ text_rub @ ''</b>'' @ nl
       @ nl @ ''[envelope] Polzovatel ozhidaet vashego otveta!''"

text \<open>
  The loop of lines 633-637: each cart row is resolved to its product, which adds a line
  to both texts and its price to the total. A row whose product is gone makes
  \<open>product.name\<close> raise.
\<close>

fun order_loop ::
  "product list \<Rightarrow> cart list \<Rightarrow> string \<times> string \<times> int \<Rightarrow> py_error + (string \<times> string \<times> int)" where
  "order_loop tab [] acc = Inr acc"
| "order_loop tab (item # items) (order_text, admin_order_text, total') =
     (case find (\<lambda>p. p_id p = c_product_id item) tab of
        None \<Rightarrow> Inl AttributeError
      | Some product \<Rightarrow>
          order_loop tab items
            (order_text @ order_line product, admin_order_text @ order_line product,
             total' + p_price product))"

text \<open>
  The \<open>except\<close> and \<open>finally\<close> blocks: the error text is sent, which may raise in turn,
  and the state is cleared.
\<close>

definition payment_failed ::
  "env \<Rightarrow> message \<Rightarrow> fsm \<Rightarrow> world \<Rightarrow> exn option \<times> fsm \<times> world" where
  "payment_failed e msg f w =
     (case answer e (ChatId (m_chat_id msg)) text_order_error NoMarkup w of
        (x, w1) \<Rightarrow> (x, state_clear f, w1))"

text \<open>Lines 649-657: the confirmation to the user, then the notification to the operator.\<close>

definition payment_notify ::
  "env \<Rightarrow> message \<Rightarrow> fsm \<Rightarrow> string \<Rightarrow> string \<Rightarrow> world \<Rightarrow> exn option \<times> fsm \<times> world" where
  "payment_notify e msg f order_text admin_order_text w =
     (case answer e (ChatId (m_chat_id msg)) order_text MainKeyboard w of
        (Some x, w1) \<Rightarrow> payment_failed e msg f w1
      | (None, w1) \<Rightarrow>
          (case answer e (ChatName (ADMIN_ID e)) admin_order_text NoMarkup w1 of
             (Some x, w2) \<Rightarrow> payment_failed e msg f w2
           | (None, w2) \<Rightarrow> (None, state_clear f, w2)))"

definition user_tag_of :: "message \<Rightarrow> string" where
  "user_tag_of msg =
     (case m_username msg of
        None \<Rightarrow> ''ID: '' @ str_int (m_user_id msg)
      | Some u \<Rightarrow> if u \<noteq> [] then ''@'' @ u else ''ID: '' @ str_int (m_user_id msg))"

definition process_payment_info ::
  "env \<Rightarrow> message \<Rightarrow> fsm \<Rightarrow> world \<Rightarrow> exn option \<times> fsm \<times> world" where
  "process_payment_info e msg f w =
     (let payment_info = fmt_text (m_text msg);
          contact = (case fsm_data f ''contact'' of None \<Rightarrow> text_not_given | Some v \<Rightarrow> fmt_val v);
          user_id = m_user_id msg;
          cart_items = filter (\<lambda>c. c_user_id c = user_id) (db_carts w)
      in if cart_items = [] then
           (case answer e (ChatId (m_chat_id msg)) text_cart_empty MainKeyboard w of
              (None, w1) \<Rightarrow> (None, state_clear f, w1)
            | (Some x, w1) \<Rightarrow> payment_failed e msg f w1)
         else
           (case order_loop (db_products w) cart_items
                   (order_head contact payment_info,
                    admin_head (user_tag_of msg) contact payment_info, 0) of
              Inl err \<Rightarrow> payment_failed e msg f w
            | Inr (order_text, admin_order_text, total') \<Rightarrow>
                payment_notify e msg f (order_text @ order_tail total')
                  (admin_order_text @ admin_tail total')
                  (w\<lparr>db_carts := filter (\<lambda>c. c_user_id c \<noteq> user_id) (db_carts w)\<rparr>)))"


text \<open>
  For the statements about the checkout: the cart rows of a user and of the others,
  whether a cart row names a product of the catalog, the products that cart rows name,
  and the contact stored in the conversation data.
\<close>

definition user_cart :: "world \<Rightarrow> int \<Rightarrow> cart list" where
  "user_cart w user_id = filter (\<lambda>c. c_user_id c = user_id) (db_carts w)"

definition other_carts :: "world \<Rightarrow> int \<Rightarrow> cart list" where
  "other_carts w user_id = filter (\<lambda>c. c_user_id c \<noteq> user_id) (db_carts w)"

definition in_catalog :: "product list \<Rightarrow> cart \<Rightarrow> bool" where
  "in_catalog tab c = (find (\<lambda>p. p_id p = c_product_id c) tab \<noteq> None)"

definition cart_products :: "product list \<Rightarrow> cart list \<Rightarrow> product list" where
  "cart_products tab items =
     concat (map (\<lambda>c. case find (\<lambda>p. p_id p = c_product_id c) tab of
                         None \<Rightarrow> [] | Some p \<Rightarrow> [p]) items)"

definition contact_of :: "fsm \<Rightarrow> string" where
  "contact_of f = (case fsm_data f ''contact'' of None \<Rightarrow> text_not_given | Some v \<Rightarrow> fmt_val v)"

text \<open>The callback data of a button, and the characters that \<open>str\<close> of a number consists of.\<close>

definition button_data :: "button \<Rightarrow> string" where
  "button_data b = (case b of Button label data \<Rightarrow> data)"

definition is_dec :: "char \<Rightarrow> bool" where
  "is_dec c = (py_isdigit c \<and> \<not> py_isspace c \<and> c \<noteq> CHR ''_'' \<and> c \<noteq> CHR ''-'' \<and> c \<noteq> CHR ''+'')"

section \<open>Example data\<close>

definition world0 :: world where
  "world0 = \<lparr>user_data = Map.empty, image_cache = Map.empty, db_products = [],
             db_carts = [], trace = [], net_log = []\<rparr>"

text \<open>An environment in which nothing fails.\<close>

definition env_ok :: env where
  "env_ok = \<lparr>tg_fails = (\<lambda>n. False), msg_id = (\<lambda>n. 100 + int n),
             file_path = (\<lambda>ph. ''photos/'' @ ph),
             respond = (\<lambda>n url. Response 200 [length url]),
             decode = (\<lambda>body. Some \<lparr>img_width = 800, img_height = 600, img_src = ''raw''\<rparr>),
             thumbnail = (\<lambda>im. Some (im\<lparr>img_width := 400, img_height := 300\<rparr>)),
             TOKEN = ''T'', ADMIN_ID = ''1'',
             new_id = (\<lambda>tab. 1 + foldr max (map p_id tab) 0), autoflush = True\<rparr>"

text \<open>An environment whose network answers every retrieval with status 404.\<close>

definition env_404 :: env where
  "env_404 = env_ok\<lparr>respond := (\<lambda>n url. Response 404 [])\<rparr>"

text \<open>A shop with two products in the category main, and a user who asks for it.\<close>

definition car :: "int \<Rightarrow> string \<Rightarrow> int \<Rightarrow> product" where
  "car i name price = \<lparr>p_id = i, p_category = ''main'', p_name = name, p_price = price,
                        p_photo_id = ''photo-'' @ name, p_description = ''die-cast''\<rparr>"

definition shop :: world where
  "shop = world0\<lparr>db_products := [car 5 ''Bone Shaker'' 100, car 7 ''Twin Mill'' 250]\<rparr>"

definition msg_main :: message where
  "msg_main = \<lparr>m_user_id = 42, m_username = Some ''bob'', m_chat_id = 42,
               m_text = Some label_main, m_contact = None\<rparr>"







text \<open>
  User 42 with two products in the cart, about to name the payment method; another
  user has a cart row as well.
\<close>

definition checkout_world :: world where
  "checkout_world = shop\<lparr>db_carts :=
     [\<lparr>c_id = 1, c_user_id = 42, c_product_id = 5\<rparr>,
      \<lparr>c_id = 2, c_user_id = 42, c_product_id = 7\<rparr>,
      \<lparr>c_id = 3, c_user_id = 9, c_product_id = 5\<rparr>]\<rparr>"

definition msg_pay :: message where
  "msg_pay = \<lparr>m_user_id = 42, m_username = Some ''bob'', m_chat_id = 42,
              m_text = Some ''card'', m_contact = None\<rparr>"

definition paying :: fsm where
  "paying = \<lparr>fsm_state = Some Waiting_payment_info,
             fsm_data = [''contact'' \<mapsto> VText (Some ''@bob'')]\<rparr>"

text \<open>An environment in which the first call of the bot API fails.\<close>

definition env_first_send_fails :: env where
  "env_first_send_fails = env_ok\<lparr>tg_fails := (\<lambda>n. n = 0)\<rparr>"

section \<open>Properties of the composer\<close>






section \<open>Properties of the image cache\<close>

lemma download_image_cases:
  "(\<exists>img. image_cache w url = Some img \<and> download_image e url w = (Some img, w)) \<or>
   (image_cache w url = None \<and>
      download_image e url w = (None, w\<lparr>net_log := net_log w @ [url]\<rparr>)) \<or>
   (\<exists>body opened img.
      image_cache w url = None \<and>
      respond e (length (net_log w)) url = Response 200 body \<and>
      decode e body = Some opened \<and> thumbnail e opened = Some img \<and>
      download_image e url w =
        (Some img, w\<lparr>net_log := net_log w @ [url],
                      image_cache := (image_cache w)(url \<mapsto> img)\<rparr>))"
  by (auto simp: download_image_def download_from_def Let_def
      split: option.splits http_result.splits)

lemma download_image_Some_cached:
  assumes "download_image e url w = (Some img, w1)"
  shows "image_cache w1 url = Some img"
  using assms download_image_cases [of w url e] by auto

text \<open>
  Claim C4, as amended. When a fetch of a URL returns a bitmap, the next fetch of the
  same URL returns the same bitmap and leaves the whole state as it is, so it retrieves
  nothing from the network; the two fetches together retrieve at most once.
\<close>

theorem download_image_second_hit:
  assumes "download_image e url w = (Some img, w1)"
  shows "download_image e url w1 = (Some img, w1) \<and>
         length (net_log w1) \<le> length (net_log w) + 1"
proof
  from assms have "image_cache w1 url = Some img"
    by (rule download_image_Some_cached)
  then show "download_image e url w1 = (Some img, w1)"
    by (simp add: download_image_def download_from_def)
next
  show "length (net_log w1) \<le> length (net_log w) + 1"
    using assms download_image_cases [of w url e] by auto
qed

theorem download_image_second_hit_witness:
  "download_image env_ok ''u'' world0 =
     (Some \<lparr>img_width = 400, img_height = 300, img_src = ''raw''\<rparr>,
      world0\<lparr>net_log := [''u''],
             image_cache := [''u'' \<mapsto> \<lparr>img_width = 400, img_height = 300, img_src = ''raw''\<rparr>]\<rparr>) \<and>
   download_image env_ok ''u''
     (world0\<lparr>net_log := [''u''],
             image_cache := [''u'' \<mapsto> \<lparr>img_width = 400, img_height = 300, img_src = ''raw''\<rparr>]\<rparr>) =
     (Some \<lparr>img_width = 400, img_height = 300, img_src = ''raw''\<rparr>,
      world0\<lparr>net_log := [''u''],
             image_cache := [''u'' \<mapsto> \<lparr>img_width = 400, img_height = 300, img_src = ''raw''\<rparr>]\<rparr>)"
proof -
  have first: "download_image env_ok ''u'' world0 =
     (Some \<lparr>img_width = 400, img_height = 300, img_src = ''raw''\<rparr>,
      world0\<lparr>net_log := [''u''],
             image_cache := [''u'' \<mapsto> \<lparr>img_width = 400, img_height = 300, img_src = ''raw''\<rparr>]\<rparr>)"
    by (simp add: download_image_def download_from_def env_ok_def world0_def)
  from download_image_second_hit [OF first] first show ?thesis by simp
qed

text \<open>
  The claim as the spec states it fails: when the first fetch fails, the second fetch of
  the same URL goes to the network again, so two sequential fetches retrieve twice.
\<close>

theorem download_image_twice_counterexample:
  "net_log (snd (download_image env_404 ''u'' (snd (download_image env_404 ''u'' world0)))) =
     [''u'', ''u'']"
  by (simp add: download_image_def download_from_def env_404_def env_ok_def world0_def)

text \<open>
  Claim C9. A fetch changes the cache only by storing, for its URL, the bitmap decoded
  and resized from a response with status 200, and then returns that bitmap. A fetch
  that returns None leaves the cache as it was, has retrieved the URL once, and the next
  fetch of the same URL retrieves it again.
\<close>

theorem download_image_miss_not_memoized:
  "(download_image e url w = (r, w1) \<longrightarrow>
      image_cache w1 = image_cache w \<or>
      (\<exists>body opened img.
          respond e (length (net_log w)) url = Response 200 body \<and>
          decode e body = Some opened \<and> thumbnail e opened = Some img \<and>
          r = Some img \<and> image_cache w1 = (image_cache w)(url \<mapsto> img))) \<and>
   (download_image e url w = (None, w1) \<longrightarrow>
      image_cache w1 = image_cache w \<and>
      net_log w1 = net_log w @ [url] \<and>
      net_log (snd (download_image e url w1)) = net_log w1 @ [url])"
proof (intro conjI impI)
  assume a: "download_image e url w = (r, w1)"
  show "image_cache w1 = image_cache w \<or>
      (\<exists>body opened img.
          respond e (length (net_log w)) url = Response 200 body \<and>
          decode e body = Some opened \<and> thumbnail e opened = Some img \<and>
          r = Some img \<and> image_cache w1 = (image_cache w)(url \<mapsto> img))"
    using a download_image_cases [of w url e] by auto
next
  assume a: "download_image e url w = (None, w1)"
  with download_image_cases [of w url e]
  have w1: "w1 = w\<lparr>net_log := net_log w @ [url]\<rparr>" and miss: "image_cache w url = None"
    by auto
  from w1 show "image_cache w1 = image_cache w" by simp
  from w1 show "net_log w1 = net_log w @ [url]" by simp
  from w1 miss have "image_cache w1 url = None" by simp
  with download_image_cases [of w1 url e]
  show "net_log (snd (download_image e url w1)) = net_log w1 @ [url]"
    by auto
qed

theorem download_image_miss_not_memoized_witness:
  "download_image env_404 ''u'' world0 = (None, world0\<lparr>net_log := [''u'']\<rparr>) \<and>
   image_cache (world0\<lparr>net_log := [''u'']\<rparr>) = image_cache world0 \<and>
   net_log (snd (download_image env_404 ''u'' (world0\<lparr>net_log := [''u'']\<rparr>))) = [''u'', ''u'']"
proof -
  have first: "download_image env_404 ''u'' world0 = (None, world0\<lparr>net_log := [''u'']\<rparr>)"
    by (simp add: download_image_def download_from_def env_404_def env_ok_def world0_def)
  from download_image_miss_not_memoized
    [of env_404 "''u''" world0 None "world0\<lparr>net_log := [''u'']\<rparr>"] first
  show ?thesis by (simp add: world0_def)
qed

section \<open>Properties of the category render\<close>

subsection \<open>Frame and trace lemmas\<close>


lemma tg_send_simps:
  "fst (tg_send e c w) =
     (if tg_fails e (length (trace w)) then None else Some (msg_id e (length (trace w))))"
  "snd (tg_send e c w) = w\<lparr>trace := trace w @ [(c, \<not> tg_fails e (length (trace w)))]\<rparr>"
  by (simp_all add: tg_send_def tg_call_def Let_def)

lemma answer_simps:
  "fst (answer e ch txt mk w) = (if tg_fails e (length (trace w)) then Some TelegramError else None)"
  "snd (answer e ch txt mk w) =
     w\<lparr>trace := trace w @ [(SendMessage ch txt mk, \<not> tg_fails e (length (trace w)))]\<rparr>"
  by (simp_all add: answer_def tg_send_def tg_call_def Let_def)







subsection \<open>Caption and buttons\<close>









text \<open>
  Claim C1 fails on the code. The first render for user 42 records message 102 as
  active. The second render sends a new collage and attempts no deletion at all: the
  session was replaced, with an empty list of active messages, before the deletion step
  read it.
\<close>

theorem show_category_second_render_keeps_first:
  "map_option last_msg_ids (user_data (snd (show_category env_ok msg_main shop)) 42) = Some [102] \<and>
   map fst (trace (snd (show_category env_ok msg_main (snd (show_category env_ok msg_main shop))))) =
     map fst (trace (snd (show_category env_ok msg_main shop))) @
       [GetFile ''photo-Bone Shaker'', GetFile ''photo-Twin Mill'',
        SendPhoto (ChatId 42)
          (Upload \<lparr>canvas_w = 800, canvas_h = 300,
                   pastes = [(\<lparr>img_width = 400, img_height = 300, img_src = ''raw''\<rparr>, 0, 0),
                             (\<lparr>img_width = 400, img_height = 300, img_src = ''raw''\<rparr>, 400, 0)]\<rparr>)
          (caption_header label_main @
              caption_line 1 (car 5 ''Bone Shaker'' 100) @ caption_line 2 (car 7 ''Twin Mill'' 250))
          (InlineKeyboard [[select_button 1 (car 5 ''Bone Shaker'' 100),
                            select_button 2 (car 7 ''Twin Mill'' 250)],
                           [Button text_back_to_menu ''back_to_menu'']])]"
  by code_simp

section \<open>Properties of the item selection\<close>






subsection \<open>The catalog plays no role in a selection\<close>








section \<open>Properties of the conversation states\<close>



section \<open>Properties of the bulk delete\<close>


















section \<open>Properties of the checkout completion\<close>

lemma order_loop_ok:
  assumes "list_all (in_catalog tab) items"
  shows "order_loop tab items (ot, adt, tot) =
           Inr (ot @ concat (map order_line (cart_products tab items)),
                adt @ concat (map order_line (cart_products tab items)),
                tot + sum_list (map p_price (cart_products tab items)))"
  using assms
proof (induction items arbitrary: ot adt tot)
  case Nil
  show ?case by (simp add: cart_products_def)
next
  case (Cons c items)
  from Cons.prems obtain p where p: "find (\<lambda>p. p_id p = c_product_id c) tab = Some p"
    by (auto simp: in_catalog_def)
  from Cons.prems have rest: "list_all (in_catalog tab) items" by simp
  have cp: "cart_products tab (c # items) = p # cart_products tab items"
    using p by (simp add: cart_products_def)
  show ?case
    using p Cons.IH [OF rest] by (simp add: cp)
qed

lemma payment_failed_simps:
  "fst (snd (payment_failed e msg f w)) = state_clear f"
  "db_carts (snd (snd (payment_failed e msg f w))) = db_carts w"
  by (simp_all add: payment_failed_def answer_def tg_send_def tg_call_def Let_def
      split: prod.splits option.splits)

lemma payment_notify_simps:
  "fst (snd (payment_notify e msg f ot adt w)) = state_clear f"
  "db_carts (snd (snd (payment_notify e msg f ot adt w))) = db_carts w"
proof -
  have "fst (snd (payment_notify e msg f ot adt w)) = state_clear f \<and>
        db_carts (snd (snd (payment_notify e msg f ot adt w))) = db_carts w"
  proof (cases "tg_fails e (length (trace w))")
    case True
    then show ?thesis
      by (simp add: payment_notify_def answer_def tg_send_def tg_call_def Let_def
          payment_failed_simps)
  next
    case first: False
    show ?thesis
    proof (cases "tg_fails e (Suc (length (trace w)))")
      case True
      with first show ?thesis
        by (simp add: payment_notify_def answer_def tg_send_def tg_call_def Let_def
            payment_failed_simps)
    next
      case False
      with first show ?thesis
        by (simp add: payment_notify_def answer_def tg_send_def tg_call_def Let_def)
    qed
  qed
  then show "fst (snd (payment_notify e msg f ot adt w)) = state_clear f"
    and "db_carts (snd (snd (payment_notify e msg f ot adt w))) = db_carts w"
    by simp_all
qed


lemma process_payment_info_ordered:
  assumes "user_cart w (m_user_id msg) \<noteq> []"
    and "list_all (in_catalog (db_products w)) (user_cart w (m_user_id msg))"
  shows "process_payment_info e msg f w =
           payment_notify e msg f
             (order_head (contact_of f) (fmt_text (m_text msg)) @
                concat (map order_line (cart_products (db_products w) (user_cart w (m_user_id msg)))) @
                order_tail (sum_list (map p_price
                  (cart_products (db_products w) (user_cart w (m_user_id msg))))))
             (admin_head (user_tag_of msg) (contact_of f) (fmt_text (m_text msg)) @
                concat (map order_line (cart_products (db_products w) (user_cart w (m_user_id msg)))) @
                admin_tail (sum_list (map p_price
                  (cart_products (db_products w) (user_cart w (m_user_id msg))))))
             (w\<lparr>db_carts := other_carts w (m_user_id msg)\<rparr>)"
proof -
  from assms(1) have ne: "filter (\<lambda>c. c_user_id c = m_user_id msg) (db_carts w) \<noteq> []"
    by (simp add: user_cart_def)
  have ol: "order_loop (db_products w) (filter (\<lambda>c. c_user_id c = m_user_id msg) (db_carts w))
              (order_head (contact_of f) (fmt_text (m_text msg)),
               admin_head (user_tag_of msg) (contact_of f) (fmt_text (m_text msg)), 0) =
            Inr (order_head (contact_of f) (fmt_text (m_text msg)) @
                   concat (map order_line
                     (cart_products (db_products w) (user_cart w (m_user_id msg)))),
                 admin_head (user_tag_of msg) (contact_of f) (fmt_text (m_text msg)) @
                   concat (map order_line
                     (cart_products (db_products w) (user_cart w (m_user_id msg)))),
                 0 + sum_list (map p_price
                     (cart_products (db_products w) (user_cart w (m_user_id msg)))))"
    using order_loop_ok [OF assms(2)] by (simp add: user_cart_def)
  show ?thesis
    unfolding process_payment_info_def Let_def
    using ne ol by (simp add: contact_of_def other_carts_def)
qed


text \<open>
  Claim C10. The state is idle with no data after the handler, whatever happens. When
  the user has cart rows and each names a product of the catalog, the two messages are
  sent from the state of the store in which the rows of the user are already removed,
  and the sending leaves the cart table as it finds it, also when a call of the bot API
  fails: the rows stay removed.
\<close>

theorem process_payment_info_commit_then_send:
  "fst (snd (process_payment_info e msg f w)) = \<lparr>fsm_state = None, fsm_data = Map.empty\<rparr> \<and>
   (user_cart w (m_user_id msg) \<noteq> [] \<and>
    list_all (in_catalog (db_products w)) (user_cart w (m_user_id msg)) \<longrightarrow>
      process_payment_info e msg f w =
        payment_notify e msg f
          (order_head (contact_of f) (fmt_text (m_text msg)) @
             concat (map order_line (cart_products (db_products w) (user_cart w (m_user_id msg)))) @
             order_tail (sum_list (map p_price
               (cart_products (db_products w) (user_cart w (m_user_id msg))))))
          (admin_head (user_tag_of msg) (contact_of f) (fmt_text (m_text msg)) @
             concat (map order_line (cart_products (db_products w) (user_cart w (m_user_id msg)))) @
             admin_tail (sum_list (map p_price
               (cart_products (db_products w) (user_cart w (m_user_id msg))))))
          (w\<lparr>db_carts := other_carts w (m_user_id msg)\<rparr>) \<and>
      db_carts (snd (snd (process_payment_info e msg f w))) = other_carts w (m_user_id msg)) \<and>
   (\<forall>ot adt w'. db_carts (snd (snd (payment_notify e msg f ot adt w'))) = db_carts w')"
proof (intro conjI impI allI)
  show "fst (snd (process_payment_info e msg f w)) = \<lparr>fsm_state = None, fsm_data = Map.empty\<rparr>"
  proof -
    have "fst (snd (process_payment_info e msg f w)) = state_clear f"
      unfolding process_payment_info_def Let_def
      by (simp add: payment_failed_simps payment_notify_simps answer_def tg_send_def tg_call_def
          Let_def split: sum.splits prod.splits)
    then show ?thesis by (simp add: state_clear_def)
  qed
next
  assume a: "user_cart w (m_user_id msg) \<noteq> [] \<and>
    list_all (in_catalog (db_products w)) (user_cart w (m_user_id msg))"
  then have a1: "user_cart w (m_user_id msg) \<noteq> []"
    and a2: "list_all (in_catalog (db_products w)) (user_cart w (m_user_id msg))"
    by simp_all
  show "process_payment_info e msg f w =
        payment_notify e msg f
          (order_head (contact_of f) (fmt_text (m_text msg)) @
             concat (map order_line (cart_products (db_products w) (user_cart w (m_user_id msg)))) @
             order_tail (sum_list (map p_price
               (cart_products (db_products w) (user_cart w (m_user_id msg))))))
          (admin_head (user_tag_of msg) (contact_of f) (fmt_text (m_text msg)) @
             concat (map order_line (cart_products (db_products w) (user_cart w (m_user_id msg)))) @
             admin_tail (sum_list (map p_price
               (cart_products (db_products w) (user_cart w (m_user_id msg))))))
          (w\<lparr>db_carts := other_carts w (m_user_id msg)\<rparr>)"
    by (rule process_payment_info_ordered [OF a1 a2])
  show "db_carts (snd (snd (process_payment_info e msg f w))) = other_carts w (m_user_id msg)"
    unfolding process_payment_info_ordered [OF a1 a2]
    by (simp add: payment_notify_simps)
next
  fix ot adt w'
  show "db_carts (snd (snd (payment_notify e msg f ot adt w'))) = db_carts w'"
    by (rule payment_notify_simps)
qed

lemma checkout_world_facts:
  "user_cart checkout_world 42 =
     [\<lparr>c_id = 1, c_user_id = 42, c_product_id = 5\<rparr>, \<lparr>c_id = 2, c_user_id = 42, c_product_id = 7\<rparr>]"
  "other_carts checkout_world 42 = [\<lparr>c_id = 3, c_user_id = 9, c_product_id = 5\<rparr>]"
  "cart_products (db_products checkout_world)
     [\<lparr>c_id = 1, c_user_id = 42, c_product_id = 5\<rparr>, \<lparr>c_id = 2, c_user_id = 42, c_product_id = 7\<rparr>] =
     [car 5 ''Bone Shaker'' 100, car 7 ''Twin Mill'' 250]"
  "in_catalog (db_products checkout_world) \<lparr>c_id = 1, c_user_id = 42, c_product_id = 5\<rparr>"
  "in_catalog (db_products checkout_world) \<lparr>c_id = 2, c_user_id = 42, c_product_id = 7\<rparr>"
  "sum_list (map p_price [car 5 ''Bone Shaker'' 100, car 7 ''Twin Mill'' 250]) = 350"
  "trace checkout_world = []"
  "p_price (car 5 ''Bone Shaker'' 100) = 100" "p_price (car 7 ''Twin Mill'' 250) = 250"
  by (simp_all add: checkout_world_def shop_def world0_def user_cart_def other_carts_def
      cart_products_def in_catalog_def car_def)

lemma msg_pay_facts:
  "m_user_id msg_pay = 42" "m_chat_id msg_pay = 42" "fmt_text (m_text msg_pay) = ''card''"
  "user_tag_of msg_pay = ''@bob''" "contact_of paying = ''@bob''"
  by (simp_all add: msg_pay_def fmt_text_def user_tag_of_def contact_of_def paying_def fmt_val_def)


theorem process_payment_info_commit_then_send_witness:
  "fst (snd (process_payment_info env_first_send_fails msg_pay paying checkout_world)) =
     \<lparr>fsm_state = None, fsm_data = Map.empty\<rparr> \<and>
   db_carts (snd (snd (process_payment_info env_first_send_fails msg_pay paying checkout_world))) =
     [\<lparr>c_id = 3, c_user_id = 9, c_product_id = 5\<rparr>] \<and>
   trace (snd (snd (process_payment_info env_first_send_fails msg_pay paying checkout_world))) =
     [(SendMessage (ChatId 42)
         (order_head ''@bob'' ''card'' @
          (order_line (car 5 ''Bone Shaker'' 100) @ order_line (car 7 ''Twin Mill'' 250)) @
          order_tail 350)
         MainKeyboard, False),
      (SendMessage (ChatId 42) text_order_error NoMarkup, True)]"
proof -
  have h: "user_cart checkout_world (m_user_id msg_pay) \<noteq> [] \<and>
           list_all (in_catalog (db_products checkout_world))
             (user_cart checkout_world (m_user_id msg_pay))"
    by (simp add: msg_pay_facts checkout_world_facts)
  note t = process_payment_info_commit_then_send
             [of env_first_send_fails msg_pay paying checkout_world]
  from t have st: "fst (snd (process_payment_info env_first_send_fails msg_pay paying checkout_world)) =
     \<lparr>fsm_state = None, fsm_data = Map.empty\<rparr>"
    by (rule conjunct1)
  from t h have eq: "process_payment_info env_first_send_fails msg_pay paying checkout_world =
        payment_notify env_first_send_fails msg_pay paying
          (order_head ''@bob'' ''card'' @
             (order_line (car 5 ''Bone Shaker'' 100) @ order_line (car 7 ''Twin Mill'' 250)) @
             order_tail 350)
          (admin_head ''@bob'' ''@bob'' ''card'' @
             (order_line (car 5 ''Bone Shaker'' 100) @ order_line (car 7 ''Twin Mill'' 250)) @
             admin_tail 350)
          (checkout_world\<lparr>db_carts := [\<lparr>c_id = 3, c_user_id = 9, c_product_id = 5\<rparr>]\<rparr>)"
    and db: "db_carts (snd (snd (process_payment_info env_first_send_fails msg_pay paying
                                   checkout_world))) =
               [\<lparr>c_id = 3, c_user_id = 9, c_product_id = 5\<rparr>]"
    by (simp_all add: msg_pay_facts checkout_world_facts)
  have fails: "tg_fails env_first_send_fails 0 = True" "tg_fails env_first_send_fails (Suc 0) = False"
    by (simp_all add: env_first_send_fails_def env_ok_def)
  have tr: "trace (snd (snd (process_payment_info env_first_send_fails msg_pay paying checkout_world))) =
     [(SendMessage (ChatId 42)
         (order_head ''@bob'' ''card'' @
          (order_line (car 5 ''Bone Shaker'' 100) @ order_line (car 7 ''Twin Mill'' 250)) @
          order_tail 350)
         MainKeyboard, False),
      (SendMessage (ChatId 42) text_order_error NoMarkup, True)]"
    unfolding eq
    by (simp add: payment_notify_def payment_failed_def answer_def tg_send_def tg_call_def Let_def
        fails checkout_world_facts msg_pay_facts)
  from st db tr show ?thesis by simp
qed

section \<open>Reading a selection button back\<close>

lemma digit_char_cases:
  assumes "d < 10"
  shows "py_isdigit (digit_char d) \<and> digit_val (digit_char d) = int d \<and>
         \<not> py_isspace (digit_char d) \<and> digit_char d \<noteq> CHR ''_'' \<and>
         digit_char d \<noteq> CHR ''-'' \<and> digit_char d \<noteq> CHR ''+''"
proof -
  from assms have "d = 0 \<or> d = 1 \<or> d = 2 \<or> d = 3 \<or> d = 4 \<or> d = 5 \<or> d = 6 \<or> d = 7 \<or> d = 8 \<or> d = 9"
    by arith
  then show ?thesis
    by (elim disjE) (simp_all add: digit_char_def py_isdigit_def digit_val_def py_isspace_def)
qed

lemma str_nat_digits: "str_nat n \<noteq> [] \<and> list_all is_dec (str_nat n)"
proof (induction n rule: str_nat.induct)
  case (1 n)
  show ?case
  proof (cases "n < 10")
    case True
    then show ?thesis
      using digit_char_cases [of n] by (simp add: str_nat.simps [of n] is_dec_def)
  next
    case False
    have "n mod 10 < 10" by simp
    from digit_char_cases [OF this] 1 [OF False] False show ?thesis
      by (simp add: str_nat.simps [of n] is_dec_def)
  qed
qed

lemma py_digits_dec:
  assumes "list_all is_dec ds"
  shows "py_digits seen acc ds =
           (if ds = [] then (if seen then Some acc else None)
            else Some (foldl (\<lambda>a c. a * 10 + digit_val c) acc ds))"
  using assms
  by (induction ds arbitrary: seen acc) (auto simp: is_dec_def)

lemma foldl_str_nat: "foldl (\<lambda>a c. a * 10 + digit_val c) 0 (str_nat n) = int n"
proof (induction n rule: str_nat.induct)
  case (1 n)
  show ?case
  proof (cases "n < 10")
    case True
    then show ?thesis
      using digit_char_cases [of n] by (simp add: str_nat.simps [of n])
  next
    case False
    have "n mod 10 < 10" by simp
    from digit_char_cases [OF this] 1 [OF False] False show ?thesis
      by (simp add: str_nat.simps [of n] zdiv_int zmod_int)
  qed
qed

lemma py_digits_str_nat: "py_digits False 0 (str_nat n) = Some (int n)"
  using str_nat_digits [of n] by (simp add: py_digits_dec foldl_str_nat)

lemma dropWhile_hd: "xs \<noteq> [] \<Longrightarrow> \<not> P (hd xs) \<Longrightarrow> dropWhile P xs = xs"
  by (cases xs) simp_all

lemma py_strip_id:
  assumes "s \<noteq> []" "\<not> py_isspace (hd s)" "\<not> py_isspace (last s)"
  shows "py_strip s = s"
proof -
  from assms have "dropWhile py_isspace (rev s) = rev s"
    by (intro dropWhile_hd) (simp_all add: hd_rev)
  with assms show ?thesis
    by (simp add: py_strip_def dropWhile_hd)
qed

lemma str_nat_ends:
  "is_dec (hd (str_nat n)) \<and> is_dec (last (str_nat n))"
  using str_nat_digits [of n]
  by (cases "str_nat n") (auto simp: list_all_iff)

lemma py_int_str_int: "py_int (str_int i) = Some i"
proof (cases "i < 0")
  case True
  have s: "py_strip (CHR ''-'' # str_nat (nat (- i))) = CHR ''-'' # str_nat (nat (- i))"
    using str_nat_digits [of "nat (- i)"] str_nat_ends [of "nat (- i)"]
    by (intro py_strip_id) (simp_all add: py_isspace_def is_dec_def)
  from True show ?thesis
    by (simp add: py_int_def str_int_def s py_digits_str_nat)
next
  case False
  obtain c cs where cs: "str_nat (nat i) = c # cs"
    using str_nat_digits [of "nat i"] by (cases "str_nat (nat i)") auto
  have s: "py_strip (c # cs) = c # cs"
    using str_nat_digits [of "nat i"] str_nat_ends [of "nat i"]
    unfolding cs by (intro py_strip_id) (simp_all add: is_dec_def)
  from str_nat_ends [of "nat i"] cs have c: "c \<noteq> CHR ''-''" "c \<noteq> CHR ''+''"
    by (simp_all add: is_dec_def)
  have "py_digits False 0 (c # cs) = Some (int (nat i))"
    using py_digits_str_nat [of "nat i"] by (simp only: cs)
  with False c show ?thesis
    by (simp add: py_int_def str_int_def s cs del: py_digits.simps)
qed

lemma split_on_absent: "sep \<notin> set s \<Longrightarrow> split_on sep s = [s]"
  by (induction s) auto

lemma str_int_no_underscore: "CHR ''_'' \<notin> set (str_int i)"
proof -
  have "CHR ''_'' \<notin> set (str_nat n)" for n
    using str_nat_digits [of n] by (auto simp: list_all_iff is_dec_def)
  then show ?thesis by (simp add: str_int_def)
qed

text \<open>The data of a selection button is read back by \<open>show_product\<close> as the id of its product.\<close>

lemma callback_id_select_button:
  "callback_id (button_data (select_button idx p)) = Inr (p_id p)"
proof -
  have "split_on CHR ''_'' (''product_'' @ str_int (p_id p)) = [''product'', str_int (p_id p)]"
    using split_on_absent [OF str_int_no_underscore [of "p_id p"]] by simp
  then show ?thesis
    by (simp add: callback_id_def button_data_def select_button_def py_get_def py_int_str_int)
qed

lemma find_snoc:
  "find P (xs @ [a]) = (case find P xs of None \<Rightarrow> (if P a then Some a else None) | Some x \<Rightarrow> Some x)"
  by (induction xs) simp_all

lemma find_Some_mem: "find P xs = Some x \<Longrightarrow> x \<in> set xs \<and> P x"
  by (induction xs) (auto split: if_splits)

lemma map_of_products_dict_aux:
  "map_of (foldl (\<lambda>d p. AList.update (p_id p) p d) d prods) k =
     (case find (\<lambda>p. p_id p = k) (rev prods) of None \<Rightarrow> map_of d k | Some p \<Rightarrow> Some p)"
proof (induction prods arbitrary: d)
  case Nil
  show ?case by simp
next
  case (Cons a prods)
  show ?case
    using Cons.IH [of "AList.update (p_id a) a d"]
    by (simp add: find_snoc update_conv' split: option.splits)
qed

text \<open>With ids that are distinct, the dictionary of the session maps each id to its product.\<close>

lemma map_of_products_dict:
  assumes "distinct (map p_id prods)" "i < length prods"
  shows "map_of (products_dict prods) (p_id (prods ! i)) = Some (prods ! i)"
proof -
  have mem: "prods ! i \<in> set prods"
    using assms(2) by simp
  then have "prods ! i \<in> set (rev prods)" by simp
  then have "find (\<lambda>p. p_id p = p_id (prods ! i)) (rev prods) \<noteq> None"
    by (auto simp: find_None_iff)
  then obtain q where q: "find (\<lambda>p. p_id p = p_id (prods ! i)) (rev prods) = Some q"
    by auto
  from find_Some_mem [OF q] have qm: "q \<in> set prods" and qi: "p_id q = p_id (prods ! i)"
    by simp_all
  from assms(1) have "inj_on p_id (set prods)"
    by (simp add: distinct_map)
  from inj_onD [OF this qi qm mem] have "q = prods ! i" .
  with q show ?thesis
    by (simp add: products_dict_def map_of_products_dict_aux)
qed

text \<open>
  So a press of the button shown at position \<open>i + 1\<close> is resolved by \<open>show_product\<close> to
  the product at position \<open>i\<close> of the list that was rendered.
\<close>

lemma select_button_resolves:
  assumes "distinct (map p_id prods)" "i < length prods"
  shows "callback_id (button_data (select_button (i + 1) (prods ! i))) = Inr (p_id (prods ! i)) \<and>
         map_of (products_dict prods) (p_id (prods ! i)) = Some (prods ! i)"
  using map_of_products_dict [OF assms] callback_id_select_button by simp

end
